theory Spec2Isabelle
  imports Complex_Main
begin

section \<open>Numeric values and errors\<close>

text \<open>
  The risk engine computes with numpy and pandas floats. The embedding uses exact real
  arithmetic for the finite values and keeps the three non-finite results of IEEE
  arithmetic as constructors of their own, so that a function returning NaN or an
  infinity is visibly different from one returning a number. Rounding is not modelled.
  Return series are lists of (finite) reals in date order, as a pandas Series of a
  gap-free return column.
\<close>

datatype npfloat = Fin real | PInf | NInf | NaN

datatype error = ValueError | IndexError | UnboundLocalError | AssertionError

fun neg_f :: "npfloat \<Rightarrow> npfloat" where
  "neg_f (Fin x) = Fin (- x)"
| "neg_f PInf = NInf"
| "neg_f NInf = PInf"
| "neg_f NaN = NaN"

text \<open>\<open>Series.mean()\<close>: the arithmetic mean, NaN on an empty series.\<close>

definition mean_s :: "real list \<Rightarrow> npfloat" where
  "mean_s xs = (if xs = [] then NaN else Fin (sum_list xs / real (length xs)))"

text \<open>
  \<open>Series.std()\<close>: pandas' sample standard deviation (one delta degree of freedom),
  NaN when the series has fewer than two observations.
\<close>

definition std_s :: "real list \<Rightarrow> npfloat" where
  "std_s xs =
     (if length xs < 2 then NaN
      else let m = sum_list xs / real (length xs)
           in Fin (sqrt (sum_list (map (\<lambda>x. (x - m)\<^sup>2) xs) / real (length xs - 1))))"

section \<open>numpy's percentile, default (linear) method\<close>

text \<open>
  \<open>np.percentile(a, q)\<close>: rejects \<open>q\<close> outside [0, 100], then works on the sorted
  data with the virtual index \<open>(n - 1) * q / 100\<close>, the neighbours \<open>floor\<close> and
  \<open>floor + 1\<close> (both the last element once the virtual index reaches \<open>n - 1\<close>) and
  the interpolation \<open>a + (b - a) * gamma\<close>. Empty data has no last element to read:
  IndexError.
\<close>

definition lerp :: "real \<Rightarrow> real \<Rightarrow> real \<Rightarrow> real" where
  "lerp a b t = a + (b - a) * t"

definition np_percentile :: "real list \<Rightarrow> real \<Rightarrow> error + real" where
  "np_percentile a q =
     (if q < 0 \<or> 100 < q then Inl ValueError
      else if a = [] then Inl IndexError
      else let arr = sort a;
               n = length a;
               virtual_index = real (n - 1) * (q / 100);
               previous_index = (if real (n - 1) \<le> virtual_index then n - 1
                                 else nat \<lfloor>virtual_index\<rfloor>);
               next_index = (if real (n - 1) \<le> virtual_index then n - 1
                             else nat \<lfloor>virtual_index\<rfloor> + 1);
               gamma = virtual_index - of_int \<lfloor>virtual_index\<rfloor>
           in Inr (lerp (arr ! previous_index) (arr ! next_index) gamma))"

section \<open>RiskCalculator\<close>

text \<open>
  A calculator is its return series and its confidence level; \<open>alpha\<close> is derived in
  the constructor as \<open>1 - confidence_level\<close>.
\<close>

definition alpha_of :: "real \<Rightarrow> real" where
  "alpha_of confidence_level = 1 - confidence_level"

definition historical_var :: "real list \<Rightarrow> real \<Rightarrow> error + npfloat" where
  "historical_var returns confidence_level =
     (case np_percentile returns (alpha_of confidence_level * 100) of
        Inl e \<Rightarrow> Inl e
      | Inr var \<Rightarrow> Inr (Fin (- var)))"

text \<open>
  The spec's words for the same quantity: the linear-interpolated empirical
  \<open>p\<close>-quantile of a sample, between the order statistics around position
  \<open>p * (n - 1)\<close>.
\<close>

definition spec_linear_quantile :: "real list \<Rightarrow> real \<Rightarrow> real" where
  "spec_linear_quantile xs p =
     (let s = sort xs;
          h = p * real (length xs - 1);
          lo = nat \<lfloor>h\<rfloor>;
          hi = nat \<lceil>h\<rceil>
      in s ! lo + (h - real lo) * (s ! hi - s ! lo))"

text \<open>
  A comparison of a return with a float: every comparison with NaN is false.
\<close>

fun le_f :: "real \<Rightarrow> npfloat \<Rightarrow> bool" where
  "le_f r (Fin v) = (r \<le> v)"
| "le_f r PInf = True"
| "le_f r NInf = False"
| "le_f r NaN = False"

definition historical_cvar :: "real list \<Rightarrow> real \<Rightarrow> error + npfloat" where
  "historical_cvar returns confidence_level =
     (case historical_var returns confidence_level of
        Inl e \<Rightarrow> Inl e
      | Inr hv \<Rightarrow>
          let var = neg_f hv;
              cvar = mean_s (filter (\<lambda>r. le_f r var) returns)
          in Inr (neg_f cvar))"

text \<open>
  \<open>scipy.stats.norm.ppf\<close> and \<open>norm.pdf\<close> are library functions: they are
  parameters, read on the open interval (0, 1) where the inverse CDF is finite. At
  \<open>alpha = 0\<close> and \<open>alpha = 1\<close> the inverse CDF is minus and plus infinity (and the
  density there is 0), outside [0, 1] it is NaN; the float arithmetic on those values is
  written out.
\<close>

definition parametric_var :: "(real \<Rightarrow> real) \<Rightarrow> real list \<Rightarrow> real \<Rightarrow> npfloat" where
  "parametric_var norm_ppf returns confidence_level =
     (case (mean_s returns, std_s returns) of
        (Fin mu, Fin sigma) \<Rightarrow>
          let alpha = alpha_of confidence_level
          in if 0 < alpha \<and> alpha < 1 then Fin (- (mu + sigma * norm_ppf alpha))
             else if alpha = 0 then (if sigma = 0 then NaN else PInf)
             else if alpha = 1 then (if sigma = 0 then NaN else NInf)
             else NaN
      | _ \<Rightarrow> NaN)"

definition parametric_cvar ::
  "(real \<Rightarrow> real) \<Rightarrow> (real \<Rightarrow> real) \<Rightarrow> real list \<Rightarrow> real \<Rightarrow> npfloat" where
  "parametric_cvar norm_ppf norm_pdf returns confidence_level =
     (case (mean_s returns, std_s returns) of
        (Fin mu, Fin sigma) \<Rightarrow>
          let alpha = alpha_of confidence_level
          in if 0 < alpha \<and> alpha < 1
             then Fin (- (mu - sigma * norm_pdf (norm_ppf alpha) / alpha))
             else if alpha = 1 then Fin (- mu)
             else NaN
      | _ \<Rightarrow> NaN)"

text \<open>
  \<open>np.random.normal\<close> reads and advances numpy's global generator. The generator is
  a state \<open>'g\<close> with a step that yields one standard-normal variate; the state is
  passed in and returned. \<open>np.random.normal(mu, sigma, n)\<close> takes \<open>n\<close> variates and
  returns \<open>mu + sigma * z\<close> for each.
\<close>

fun draws :: "('g \<Rightarrow> real \<times> 'g) \<Rightarrow> nat \<Rightarrow> 'g \<Rightarrow> real list \<times> 'g" where
  "draws gen 0 g = ([], g)"
| "draws gen (Suc n) g =
     (case gen g of (z, g') \<Rightarrow> (case draws gen n g' of (zs, g'') \<Rightarrow> (z # zs, g'')))"

definition random_normal ::
  "('g \<Rightarrow> real \<times> 'g) \<Rightarrow> real \<Rightarrow> real \<Rightarrow> nat \<Rightarrow> 'g \<Rightarrow> real list \<times> 'g" where
  "random_normal gen mu sigma n g =
     (case draws gen n g of (zs, g') \<Rightarrow> (map (\<lambda>z. mu + sigma * z) zs, g'))"

text \<open>
  With NaN for the mean or the deviation (fewer than two observations) every simulated
  value is NaN, and so is their percentile; the percentile's own checks still raise.
\<close>

definition monte_carlo_var ::
  "('g \<Rightarrow> real \<times> 'g) \<Rightarrow> real list \<Rightarrow> real \<Rightarrow> nat \<Rightarrow> 'g \<Rightarrow> (error + npfloat) \<times> 'g" where
  "monte_carlo_var gen returns confidence_level n_simulations g =
     (let q = alpha_of confidence_level * 100
      in case (mean_s returns, std_s returns) of
           (Fin mu, Fin sigma) \<Rightarrow>
             (case random_normal gen mu sigma n_simulations g of
                (simulated_returns, g') \<Rightarrow>
                  (case np_percentile simulated_returns q of
                     Inl e \<Rightarrow> (Inl e, g')
                   | Inr var \<Rightarrow> (Inr (Fin (- var)), g')))
         | _ \<Rightarrow>
             (if q < 0 \<or> 100 < q then Inl ValueError
              else if n_simulations = 0 then Inl IndexError
              else Inr NaN,
              snd (draws gen n_simulations g)))"

definition monte_carlo_cvar ::
  "('g \<Rightarrow> real \<times> 'g) \<Rightarrow> real list \<Rightarrow> real \<Rightarrow> nat \<Rightarrow> 'g \<Rightarrow> (error + npfloat) \<times> 'g" where
  "monte_carlo_cvar gen returns confidence_level n_simulations g =
     (let q = alpha_of confidence_level * 100
      in case (mean_s returns, std_s returns) of
           (Fin mu, Fin sigma) \<Rightarrow>
             (case random_normal gen mu sigma n_simulations g of
                (simulated_returns, g') \<Rightarrow>
                  (case np_percentile simulated_returns q of
                     Inl e \<Rightarrow> (Inl e, g')
                   | Inr var \<Rightarrow>
                       (Inr (neg_f (mean_s (filter (\<lambda>r. r \<le> var) simulated_returns))), g')))
         | _ \<Rightarrow>
             (if q < 0 \<or> 100 < q then Inl ValueError
              else if n_simulations = 0 then Inl IndexError
              else Inr NaN,
              snd (draws gen n_simulations g)))"

section \<open>VaRBacktester\<close>

text \<open>
  The backtester holds the realised returns, the VaR estimates on the same dates and the
  confidence level. The comparison of two pandas Series needs identically labelled
  operands: estimates of another length raise ValueError.
\<close>

definition get_violations :: "real list \<Rightarrow> real list \<Rightarrow> error + bool list" where
  "get_violations returns var_estimates =
     (if length returns \<noteq> length var_estimates then Inl ValueError
      else Inr (map (\<lambda>(r, v). v < - r) (zip returns var_estimates)))"

record kupiec_result =
  n_violations :: nat
  n_observations :: nat
  violation_rate :: npfloat
  expected_rate :: real
  lr_statistic :: npfloat
  p_value :: npfloat
  reject_null :: bool

text \<open>
  \<open>scipy.stats.chi2.cdf(., df=1)\<close> is a parameter. \<open>np.log\<close> is the real logarithm
  on positive arguments, minus infinity at 0 and NaN below: with \<open>alpha\<close> at 0 or 1 the
  statistic is plus infinity (p-value \<open>1 - 1 = 0\<close>), with \<open>alpha\<close> outside [0, 1] it is
  NaN, and a comparison with NaN is false.
\<close>

definition kupiec_test ::
  "(real \<Rightarrow> real) \<Rightarrow> real list \<Rightarrow> real list \<Rightarrow> real \<Rightarrow> error + kupiec_result" where
  "kupiec_test chi2_cdf returns var_estimates confidence_level =
     (case get_violations returns var_estimates of
        Inl e \<Rightarrow> Inl e
      | Inr violations \<Rightarrow>
          let x = length (filter (\<lambda>b. b) violations);
              n_obs = length violations;
              rate = real x / real n_obs;
              alpha = alpha_of confidence_level;
              base = \<lparr>n_violations = x, n_observations = n_obs,
                      violation_rate = (if n_obs = 0 then NaN else Fin rate),
                      expected_rate = alpha,
                      lr_statistic = Fin 0, p_value = Fin 1, reject_null = False\<rparr>
          in if x = 0 \<or> x = n_obs then Inr base
             else if 0 < alpha \<and> alpha < 1 then
               let lr_stat = - 2 * (real x * ln alpha +
                                    real (n_obs - x) * ln (1 - alpha) -
                                    real x * ln rate -
                                    real (n_obs - x) * ln (1 - rate));
                   p = 1 - chi2_cdf lr_stat
               in Inr (base\<lparr>lr_statistic := Fin lr_stat, p_value := Fin p,
                             reject_null := (p < 0.05)\<rparr>)
             else if alpha = 0 \<or> alpha = 1 then
               Inr (base\<lparr>lr_statistic := PInf, p_value := Fin 0, reject_null := True\<rparr>)
             else Inr (base\<lparr>lr_statistic := NaN, p_value := NaN, reject_null := False\<rparr>))"

text \<open>The spec's formula for the likelihood-ratio statistic.\<close>

definition spec_kupiec_lr :: "nat \<Rightarrow> nat \<Rightarrow> real \<Rightarrow> real" where
  "spec_kupiec_lr x n pi_exp =
     - 2 * (real x * ln pi_exp + real (n - x) * ln (1 - pi_exp)
            - real x * ln (real x / real n)
            - real (n - x) * ln (1 - real x / real n))"

text \<open>
  The rolling backtest. The local \<open>var\<close> is bound by one of three branches of an
  if/elif chain with no else: it is \<open>None\<close> while unbound and keeps its last binding
  across iterations. Appending an unbound local raises UnboundLocalError. The Monte
  Carlo branch is called without arguments: \<open>n_simulations\<close> is its default, 10000.
\<close>

definition default_n_simulations :: nat where
  "default_n_simulations = 10000"

definition window_var ::
  "('g \<Rightarrow> real \<times> 'g) \<Rightarrow> (real \<Rightarrow> real) \<Rightarrow> string \<Rightarrow> real list \<Rightarrow> real \<Rightarrow>
     npfloat option \<Rightarrow> 'g \<Rightarrow> error + (npfloat option \<times> 'g)" where
  "window_var gen norm_ppf method window_returns confidence_level var g =
     (if method = ''historical'' then
        (case historical_var window_returns confidence_level of
           Inl e \<Rightarrow> Inl e
         | Inr v \<Rightarrow> Inr (Some v, g))
      else if method = ''parametric'' then
        Inr (Some (parametric_var norm_ppf window_returns confidence_level), g)
      else if method = ''monte_carlo'' then
        (case monte_carlo_var gen window_returns confidence_level default_n_simulations g of
           (Inl e, g') \<Rightarrow> Inl e
         | (Inr v, g') \<Rightarrow> Inr (Some v, g'))
      else Inr (var, g))"

definition rolling_body ::
  "('g \<Rightarrow> real \<times> 'g) \<Rightarrow> (real \<Rightarrow> real) \<Rightarrow> real list \<Rightarrow> real \<Rightarrow> nat \<Rightarrow> string \<Rightarrow> nat \<Rightarrow>
     npfloat option \<times> npfloat list \<times> real list \<times> 'g \<Rightarrow>
     error + (npfloat option \<times> npfloat list \<times> real list \<times> 'g)" where
  "rolling_body gen norm_ppf returns confidence_level window method i st =
     (case st of (var, var_estimates, actual_returns, g) \<Rightarrow>
        let window_returns = take window (drop (i - window) returns)
        in (case window_var gen norm_ppf method window_returns confidence_level var g of
              Inl e \<Rightarrow> Inl e
            | Inr (var', g') \<Rightarrow>
                (case var' of
                   None \<Rightarrow> Inl UnboundLocalError
                 | Some v \<Rightarrow>
                     Inr (var', var_estimates @ [v], actual_returns @ [returns ! i], g'))))"

fun rolling_loop ::
  "('g \<Rightarrow> real \<times> 'g) \<Rightarrow> (real \<Rightarrow> real) \<Rightarrow> real list \<Rightarrow> real \<Rightarrow> nat \<Rightarrow> string \<Rightarrow> nat list \<Rightarrow>
     npfloat option \<times> npfloat list \<times> real list \<times> 'g \<Rightarrow>
     error + (npfloat option \<times> npfloat list \<times> real list \<times> 'g)" where
  "rolling_loop gen norm_ppf returns confidence_level window method [] st = Inr st"
| "rolling_loop gen norm_ppf returns confidence_level window method (i # is) st =
     (case rolling_body gen norm_ppf returns confidence_level window method i st of
        Inl e \<Rightarrow> Inl e
      | Inr st' \<Rightarrow> rolling_loop gen norm_ppf returns confidence_level window method is st')"

definition rolling_var_backtest ::
  "('g \<Rightarrow> real \<times> 'g) \<Rightarrow> (real \<Rightarrow> real) \<Rightarrow> real list \<Rightarrow> real \<Rightarrow> nat \<Rightarrow> string \<Rightarrow> 'g \<Rightarrow>
     error + ((npfloat list \<times> real list) \<times> 'g)" where
  "rolling_var_backtest gen norm_ppf returns confidence_level window method g =
     (case rolling_loop gen norm_ppf returns confidence_level window method
             [window ..< length returns] (None, [], [], g) of
        Inl e \<Rightarrow> Inl e
      | Inr (var, var_estimates, actual_returns, g') \<Rightarrow>
          Inr ((var_estimates, actual_returns), g'))"

text \<open>
  What the spec asks of one rolling estimate: it is the selected method's VaR of the
  given window (for the Monte Carlo method, from some state of the generator).
\<close>

definition window_estimate ::
  "('g \<Rightarrow> real \<times> 'g) \<Rightarrow> (real \<Rightarrow> real) \<Rightarrow> string \<Rightarrow> real list \<Rightarrow> real \<Rightarrow> npfloat \<Rightarrow> bool"
  where
  "window_estimate gen norm_ppf method window_returns confidence_level v =
     ((method = ''historical'' \<and> historical_var window_returns confidence_level = Inr v)
      \<or> (method = ''parametric'' \<and> v = parametric_var norm_ppf window_returns confidence_level)
      \<or> (method = ''monte_carlo'' \<and>
          (\<exists>s. fst (monte_carlo_var gen window_returns confidence_level
                         default_n_simulations s) = Inr v)))"

section \<open>Portfolio\<close>

text \<open>
  The returns DataFrame is its column labels and its rows. \<open>np.isclose(a, b)\<close> with
  the default tolerances is \<open>|a - b| \<le> 1e-8 + 1e-5 * |b|\<close>. The constructor takes the
  weights as given, or \<open>np.ones(n) / n\<close>, and asserts only the sum of given weights.
\<close>

record dataframe =
  columns :: "string list"
  data_rows :: "real list list"

definition isclose :: "real \<Rightarrow> real \<Rightarrow> bool" where
  "isclose a b = (\<bar>a - b\<bar> \<le> 1 / 10 ^ 8 + 1 / 10 ^ 5 * \<bar>b\<bar>)"

record portfolio =
  returns :: dataframe
  assets :: "string list"
  n_assets :: nat
  weights :: "real list"

definition Portfolio_init :: "dataframe \<Rightarrow> real list option \<Rightarrow> error + portfolio" where
  "Portfolio_init df ws =
     (let cols = columns df; n = length cols
      in case ws of
           None \<Rightarrow>
             Inr \<lparr>returns = df, assets = cols, n_assets = n,
                  weights = map (\<lambda>w. w / real n) (replicate n 1)\<rparr>
         | Some w \<Rightarrow>
             if isclose (sum_list w) 1
             then Inr \<lparr>returns = df, assets = cols, n_assets = n, weights = w\<rparr>
             else Inl AssertionError)"

section \<open>Closed stand-ins for the library functions\<close>

text \<open>
  The general theorems quantify over the generator and over scipy's functions. Closed
  examples need values for them: a generator whose \<open>k\<close>-th variate is \<open>k\<close>, the table
  values of the standard normal at \<open>alpha = 0.05\<close> (inverse CDF -1.645, density 0.103
  there), and a chi-square CDF reduced to the two sides of its 5% critical value 3.841.
\<close>

definition counter_gen :: "nat \<Rightarrow> real \<times> nat" where
  "counter_gen k = (real k, Suc k)"

definition table_norm_ppf :: "real \<Rightarrow> real" where
  "table_norm_ppf a = - 1.645"

definition table_norm_pdf :: "real \<Rightarrow> real" where
  "table_norm_pdf z = 0.103"

definition table_chi2_cdf :: "real \<Rightarrow> real" where
  "table_chi2_cdf t = (if t < 3.841 then 0.9 else 0.96)"

section \<open>The percentile and the historical VaR\<close>

lemma np_percentile_unfold:
  assumes ne: "xs \<noteq> []" and q0: "0 \<le> q" and q1: "q \<le> 100"
    and h: "h = real (length xs - 1) * (q / 100)"
  shows "np_percentile xs q =
     Inr (if real (length xs - 1) \<le> h then sort xs ! (length xs - 1)
          else lerp (sort xs ! nat \<lfloor>h\<rfloor>) (sort xs ! (nat \<lfloor>h\<rfloor> + 1)) (h - of_int \<lfloor>h\<rfloor>))"
proof -
  have q: "\<not> (q < 0 \<or> 100 < q)" using q0 q1 by simp
  show ?thesis
    unfolding np_percentile_def Let_def h [symmetric] if_not_P [OF q] if_not_P [OF ne]
    by (simp only: lerp_def if_distrib [of Inr] cong: if_cong) simp
qed

lemma spec_linear_quantile_unfold:
  assumes h: "h = p * real (length xs - 1)"
  shows "spec_linear_quantile xs p =
     sort xs ! nat \<lfloor>h\<rfloor> + (h - real (nat \<lfloor>h\<rfloor>)) * (sort xs ! nat \<lceil>h\<rceil> - sort xs ! nat \<lfloor>h\<rfloor>)"
  unfolding spec_linear_quantile_def Let_def h [symmetric] ..

lemma np_percentile_linear:
  assumes ne: "xs \<noteq> []" and p0: "0 \<le> p" and p1: "p \<le> 1"
  shows "np_percentile xs (p * 100) = Inr (spec_linear_quantile xs p)"
proof -
  define n where "n = length xs"
  define h where "h = real (n - 1) * p"
  define s where "s = sort xs"
  have h0: "0 \<le> h" using p0 by (simp add: h_def)
  have hle: "h \<le> real (n - 1)" using p1 unfolding h_def by (simp add: mult_left_le)
  have fl0: "0 \<le> \<lfloor>h\<rfloor>" using h0 by simp
  have lo: "real (nat \<lfloor>h\<rfloor>) = of_int \<lfloor>h\<rfloor>" using fl0 by simp
  have np: "np_percentile xs (p * 100) =
     Inr (if real (n - 1) \<le> h then s ! (n - 1)
          else lerp (s ! nat \<lfloor>h\<rfloor>) (s ! (nat \<lfloor>h\<rfloor> + 1)) (h - of_int \<lfloor>h\<rfloor>))"
    unfolding n_def s_def
    by (rule np_percentile_unfold [OF ne]) (use p0 p1 in \<open>simp_all add: h_def n_def\<close>)
  have sp: "spec_linear_quantile xs p =
     s ! nat \<lfloor>h\<rfloor> + (h - real (nat \<lfloor>h\<rfloor>)) * (s ! nat \<lceil>h\<rceil> - s ! nat \<lfloor>h\<rfloor>)"
    unfolding s_def
    by (rule spec_linear_quantile_unfold) (simp add: h_def n_def)
  show ?thesis
  proof (cases "real (n - 1) \<le> h")
    case True
    then have heq: "h = real (n - 1)" using hle by simp
    have "\<lfloor>h\<rfloor> = int (n - 1)" "\<lceil>h\<rceil> = int (n - 1)" unfolding heq by simp_all
    then show ?thesis unfolding np sp using True by simp
  next
    case False
    show ?thesis
    proof (cases "of_int \<lfloor>h\<rfloor> = h")
      case True
      then have g0: "h - of_int \<lfloor>h\<rfloor> = 0" by (simp only: diff_self)
      show ?thesis unfolding np sp lo g0 using False by (simp add: lerp_def)
    next
      case nonint: False
      then have "\<lceil>h\<rceil> = \<lfloor>h\<rfloor> + 1" by (simp add: ceiling_altdef)
      then have "nat \<lceil>h\<rceil> = nat \<lfloor>h\<rfloor> + 1" using fl0 by (simp add: nat_add_distrib)
      then show ?thesis unfolding np sp lo using False by (simp add: lerp_def mult.commute)
    qed
  qed
qed

lemma historical_var_quantile:
  assumes "rs \<noteq> []" and "0 \<le> cl" and "cl \<le> 1"
  shows "historical_var rs cl =
           Inr (Fin (- spec_linear_quantile rs (1 - cl)))"
  using np_percentile_linear [OF assms(1), of "1 - cl"] assms(2,3)
  by (simp add: historical_var_def alpha_of_def)

text \<open>
  C1, as the code has it. The historical VaR is the negated linear-interpolated empirical
  quantile at \<open>alpha = 1 - cl\<close>, for every non-empty sample and confidence
  level in [0, 1]. On the spec's sample at confidence 0.80 the interpolation position is
  \<open>0.2 * 4 = 0.8\<close>, between -0.05 and -0.03, so the value is 0.034.
\<close>

theorem historical_var_is_negated_linear_quantile:
  assumes "rs \<noteq> []" and "0 \<le> cl" and "cl \<le> 1"
  shows "historical_var rs cl =
           Inr (Fin (- spec_linear_quantile rs (1 - cl)))
         \<and> historical_var [-0.05, -0.03, -0.01, 0.0, 0.02] 0.80 = Inr (Fin 0.034)"
proof
  show "historical_var rs cl =
          Inr (Fin (- spec_linear_quantile rs (1 - cl)))"
    by (rule historical_var_quantile [OF assms])
  show "historical_var [-0.05, -0.03, -0.01, 0.0, 0.02] 0.80 = Inr (Fin 0.034)"
    by (simp add: historical_var_def np_percentile_def alpha_of_def lerp_def Let_def)
qed

theorem historical_var_is_negated_linear_quantile_witness:
  "[-0.05, -0.03, -0.01, 0.0, 0.02] \<noteq> ([] :: real list) \<and> (0::real) \<le> 0.80 \<and> (0.80::real) \<le> 1
   \<and> historical_var [-0.05, -0.03, -0.01, 0.0, 0.02] 0.80 =
       Inr (Fin (- spec_linear_quantile [-0.05, -0.03, -0.01, 0.0, 0.02] (1 - 0.80)))"
  using historical_var_is_negated_linear_quantile
    [of "[-0.05, -0.03, -0.01, 0.0, 0.02]" "0.80"]
  by simp

text \<open>
  The spec's example value for C1 is not what the code rs: the result is 0.034,
  which is 0.008 away from 0.042.
\<close>

theorem historical_var_example_counterexample:
  "historical_var [-0.05, -0.03, -0.01, 0.0, 0.02] 0.80 = Inr (Fin 0.034)
   \<and> historical_var [-0.05, -0.03, -0.01, 0.0, 0.02] 0.80 \<noteq> Inr (Fin 0.042)
   \<and> \<bar>(0.034::real) - 0.042\<bar> = 0.008"
  by (simp add: historical_var_def np_percentile_def alpha_of_def lerp_def Let_def)

section \<open>The percentile lies within the sample\<close>

lemma np_percentile_bounds:
  assumes ne: "xs \<noteq> []" and q0: "0 \<le> q" and q1: "q \<le> 100"
  shows "\<exists>v x y. np_percentile xs q = Inr v \<and> x \<in> set xs \<and> x \<le> v \<and> y \<in> set xs \<and> v \<le> y"
proof -
  define n where "n = length xs"
  define h where "h = real (n - 1) * (q / 100)"
  define s where "s = sort xs"
  have n0: "0 < n" using ne by (simp add: n_def)
  have len: "length s = n" by (simp add: s_def n_def)
  have srt: "sorted s" by (simp add: s_def)
  have mem: "s ! i \<in> set xs" if "i < n" for i
  proof -
    have "s ! i \<in> set s" using that len by simp
    then show ?thesis by (simp add: s_def)
  qed
  have h0: "0 \<le> h" using q0 by (simp add: h_def)
  have np: "np_percentile xs q =
     Inr (if real (n - 1) \<le> h then s ! (n - 1)
          else lerp (s ! nat \<lfloor>h\<rfloor>) (s ! (nat \<lfloor>h\<rfloor> + 1)) (h - of_int \<lfloor>h\<rfloor>))"
    unfolding n_def s_def
    by (rule np_percentile_unfold [OF ne q0 q1]) (simp add: h_def n_def)
  show ?thesis
  proof (cases "real (n - 1) \<le> h")
    case True
    have "s ! (n - 1) \<in> set xs" using mem [of "n - 1"] n0 by simp
    then show ?thesis unfolding np using True by auto
  next
    case False
    then have "h < real (n - 1)" by simp
    then have "\<lfloor>h\<rfloor> < int (n - 1)" by (simp add: floor_less_iff)
    then have lt: "nat \<lfloor>h\<rfloor> < n - 1" using h0 by linarith
    then have i1: "nat \<lfloor>h\<rfloor> < n" and i2: "nat \<lfloor>h\<rfloor> + 1 < n" by simp_all
    define a where "a = s ! nat \<lfloor>h\<rfloor>"
    define b where "b = s ! (nat \<lfloor>h\<rfloor> + 1)"
    define t where "t = h - of_int \<lfloor>h\<rfloor>"
    have le: "a \<le> b"
      unfolding a_def b_def using srt i2 len by (simp add: sorted_nth_mono)
    have t0: "0 \<le> t" and t1: "t \<le> 1" unfolding t_def by linarith+
    have lower: "a \<le> lerp a b t"
      unfolding lerp_def using le t0 by simp
    have "(b - a) * t \<le> (b - a) * 1"
      using le t1 by (intro mult_left_mono) simp_all
    then have upper: "lerp a b t \<le> b"
      unfolding lerp_def by simp
    have ma: "a \<in> set xs" unfolding a_def by (rule mem [OF i1])
    have mb: "b \<in> set xs" unfolding b_def by (rule mem [OF i2])
    have "np_percentile xs q = Inr (lerp a b t)"
      unfolding np a_def b_def t_def using False by simp
    then show ?thesis using lower upper ma mb by blast
  qed
qed

lemma mean_le_bound:
  assumes "xs \<noteq> []" and "\<forall>x\<in>set xs. x \<le> (v::real)"
  shows "sum_list xs / real (length xs) \<le> v"
proof -
  have "sum_list xs \<le> sum_list (map (\<lambda>_. v) xs)"
    using assms(2) by (induction xs) (auto simp: add_mono)
  also have "\<dots> = real (length xs) * v" by (simp add: sum_list_triv)
  finally have "sum_list xs \<le> real (length xs) * v" .
  moreover have "0 < real (length xs)" using assms(1) by simp
  ultimately show ?thesis by (simp add: pos_divide_le_eq mult.commute)
qed

lemma historical_tail:
  assumes "rs \<noteq> []" and "0 \<le> cl" and "cl \<le> 1"
  shows "\<exists>v. historical_var rs cl = Inr (Fin v) \<and>
             filter (\<lambda>r. r \<le> - v) rs \<noteq> [] \<and>
             historical_cvar rs cl =
               Inr (Fin (- (sum_list (filter (\<lambda>r. r \<le> - v) rs) /
                            real (length (filter (\<lambda>r. r \<le> - v) rs)))))"
proof -
  have "0 \<le> alpha_of cl * 100" "alpha_of cl * 100 \<le> 100"
    using assms(2,3) by (simp_all add: alpha_of_def)
  from np_percentile_bounds [OF assms(1) this]
  obtain var x where p: "np_percentile rs (alpha_of cl * 100) = Inr var"
    and x: "x \<in> set rs" "x \<le> var" by blast
  have hv: "historical_var rs cl = Inr (Fin (- var))"
    by (simp add: historical_var_def p)
  have ne: "filter (\<lambda>r. r \<le> var) rs \<noteq> []"
    using x by (auto simp: filter_empty_conv)
  have "historical_cvar rs cl =
          Inr (Fin (- (sum_list (filter (\<lambda>r. r \<le> var) rs) /
                       real (length (filter (\<lambda>r. r \<le> var) rs)))))"
    using ne by (simp add: historical_cvar_def hv mean_s_def Let_def)
  then show ?thesis using hv ne by simp
qed

text \<open>
  C7. For a non-empty series (and a confidence level in [0, 1], where the percentile is
  defined) the historical CVaR is the negated mean of the returns at or below the signed
  VaR threshold \<open>- v\<close>. The interpolated percentile is never below the smallest
  observation, so that subset is never empty and the result is always a finite number: the
  case of an empty tail, in which the mean would be NaN, does not arise.
\<close>

theorem historical_cvar_is_negated_tail_mean:
  assumes "rs \<noteq> []" and "0 \<le> cl" and "cl \<le> 1"
  shows "\<exists>v. historical_var rs cl = Inr (Fin v) \<and>
             filter (\<lambda>r. r \<le> - v) rs \<noteq> [] \<and>
             historical_cvar rs cl =
               Inr (Fin (- (sum_list (filter (\<lambda>r. r \<le> - v) rs) /
                            real (length (filter (\<lambda>r. r \<le> - v) rs)))))"
  by (rule historical_tail [OF assms])

theorem historical_cvar_is_negated_tail_mean_witness:
  "[-0.05, -0.03, -0.01, 0.0, 0.02] \<noteq> ([] :: real list) \<and> (0::real) \<le> 0.80 \<and> (0.80::real) \<le> 1
   \<and> (\<exists>v. historical_var [-0.05, -0.03, -0.01, 0.0, 0.02] 0.80 = Inr (Fin v) \<and>
           filter (\<lambda>r. r \<le> - v) [-0.05, -0.03, -0.01, 0.0, 0.02] \<noteq> [] \<and>
           historical_cvar [-0.05, -0.03, -0.01, 0.0, 0.02] 0.80 =
             Inr (Fin (- (sum_list (filter (\<lambda>r. r \<le> - v) [-0.05, -0.03, -0.01, 0.0, 0.02]) /
                          real (length (filter (\<lambda>r. r \<le> - v)
                                          [-0.05, -0.03, -0.01, 0.0, 0.02]))))))"
  using historical_cvar_is_negated_tail_mean [of "[-0.05, -0.03, -0.01, 0.0, 0.02]" "0.80"]
  by simp

section \<open>Sampling and the tail average\<close>

lemma draws_Suc:
  "draws gen (Suc n) g =
     (fst (gen g) # fst (draws gen n (snd (gen g))), snd (draws gen n (snd (gen g))))"
  by (simp split: prod.splits)

lemma length_draws: "length (fst (draws gen n g)) = n"
proof (induction n arbitrary: g)
  case 0
  show ?case by simp
next
  case (Suc n)
  show ?case unfolding draws_Suc fst_conv using Suc [of "snd (gen g)"] by simp
qed

lemma snd_draws: "snd (draws gen n g) = ((\<lambda>s. snd (gen s)) ^^ n) g"
proof (induction n arbitrary: g)
  case 0
  show ?case by simp
next
  case (Suc n)
  define F where "F = (\<lambda>s. snd (gen s))"
  have "(F ^^ n) (F g) = F ((F ^^ n) g)" by (simp add: funpow_swap1)
  then have "(F ^^ n) (snd (gen g)) = (F ^^ Suc n) g" by (simp add: F_def)
  then show ?case unfolding draws_Suc snd_conv Suc F_def .
qed

lemma random_normal_eq:
  "random_normal gen mu sigma n g =
     (map (\<lambda>z. mu + sigma * z) (fst (draws gen n g)), snd (draws gen n g))"
  by (simp add: random_normal_def split: prod.splits)

lemma monte_carlo_var_fin:
  assumes "mean_s rs = Fin mu" and "std_s rs = Fin sigma"
  shows "monte_carlo_var gen rs cl n g =
     (case np_percentile (map (\<lambda>z. mu + sigma * z) (fst (draws gen n g))) (alpha_of cl * 100) of
        Inl e \<Rightarrow> Inl e | Inr var \<Rightarrow> Inr (Fin (- var)),
      snd (draws gen n g))"
  by (simp add: monte_carlo_var_def assms random_normal_eq Let_def split: sum.splits)

lemma monte_carlo_cvar_fin:
  assumes "mean_s rs = Fin mu" and "std_s rs = Fin sigma"
  shows "monte_carlo_cvar gen rs cl n g =
     (case np_percentile (map (\<lambda>z. mu + sigma * z) (fst (draws gen n g))) (alpha_of cl * 100) of
        Inl e \<Rightarrow> Inl e
      | Inr var \<Rightarrow> Inr (neg_f (mean_s (filter (\<lambda>r. r \<le> var)
                                   (map (\<lambda>z. mu + sigma * z) (fst (draws gen n g)))))),
      snd (draws gen n g))"
  by (simp add: monte_carlo_cvar_def assms random_normal_eq Let_def split: sum.splits)

lemma mean_std_fin:
  assumes "2 \<le> length rs"
  shows "\<exists>mu sigma. mean_s rs = Fin mu \<and> std_s rs = Fin sigma \<and> 0 \<le> sigma"
  using assms by (auto simp: mean_s_def std_s_def Let_def intro!: sum_list_nonneg divide_nonneg_nonneg)

lemma tail_cvar_ge:
  assumes ne: "sims \<noteq> []" and q0: "0 \<le> q" and q1: "q \<le> 100"
  shows "\<exists>var c. np_percentile sims q = Inr var \<and>
           neg_f (mean_s (filter (\<lambda>r. r \<le> var) sims)) = Fin c \<and> - var \<le> c"
proof -
  from np_percentile_bounds [OF ne q0 q1]
  obtain var x where p: "np_percentile sims q = Inr var"
    and x: "x \<in> set sims" "x \<le> var" by blast
  let ?tail = "filter (\<lambda>r. r \<le> var) sims"
  have tne: "?tail \<noteq> []" using x by (auto simp: filter_empty_conv)
  have "sum_list ?tail / real (length ?tail) \<le> var"
    by (rule mean_le_bound [OF tne]) simp
  then show ?thesis using p tne by (simp add: mean_s_def)
qed

lemma historical_cvar_ge_var:
  assumes "rs \<noteq> []" and "0 \<le> cl" and "cl \<le> 1"
  shows "\<exists>v c. historical_var rs cl = Inr (Fin v) \<and> historical_cvar rs cl = Inr (Fin c) \<and> v \<le> c"
proof -
  have q: "0 \<le> alpha_of cl * 100" "alpha_of cl * 100 \<le> 100"
    using assms(2,3) by (simp_all add: alpha_of_def)
  from tail_cvar_ge [OF assms(1) q]
  obtain var c where p: "np_percentile rs (alpha_of cl * 100) = Inr var"
    and c: "neg_f (mean_s (filter (\<lambda>r. r \<le> var) rs)) = Fin c" "- var \<le> c" by blast
  have hv: "historical_var rs cl = Inr (Fin (- var))"
    by (simp add: historical_var_def p)
  have "historical_cvar rs cl = Inr (Fin c)"
    using c(1) by (simp add: historical_cvar_def hv Let_def)
  then show ?thesis using hv c(2) by blast
qed

lemma parametric_cvar_ge_var:
  assumes len: "2 \<le> length rs" and cl: "0 < cl" "cl < 1"
    and mills: "- (alpha_of cl * norm_ppf (alpha_of cl)) \<le> norm_pdf (norm_ppf (alpha_of cl))"
  shows "\<exists>v c. parametric_var norm_ppf rs cl = Fin v \<and>
               parametric_cvar norm_ppf norm_pdf rs cl = Fin c \<and> v \<le> c"
proof -
  from mean_std_fin [OF len] obtain mu sigma
    where ms: "mean_s rs = Fin mu" "std_s rs = Fin sigma" and s0: "0 \<le> sigma" by blast
  define a where "a = alpha_of cl"
  have a: "0 < a" "a < 1" using cl by (simp_all add: a_def alpha_of_def)
  have "- norm_ppf a \<le> norm_pdf (norm_ppf a) / a"
    using mills a(1) unfolding a_def [symmetric] by (simp add: pos_le_divide_eq mult.commute)
  then have "sigma * (- norm_ppf a) \<le> sigma * (norm_pdf (norm_ppf a) / a)"
    using s0 by (rule mult_left_mono)
  then have "- (mu + sigma * norm_ppf a) \<le> - (mu - sigma * norm_pdf (norm_ppf a) / a)"
    by simp
  then show ?thesis
    using a by (simp add: parametric_var_def parametric_cvar_def ms a_def [symmetric] Let_def)
qed

lemma monte_carlo_cvar_ge_var_same_state:
  assumes len: "2 \<le> length rs" and cl: "0 \<le> cl" "cl \<le> 1" and n: "1 \<le> n"
  shows "\<exists>v c. fst (monte_carlo_var gen rs cl n g) = Inr (Fin v) \<and>
               fst (monte_carlo_cvar gen rs cl n g) = Inr (Fin c) \<and> v \<le> c"
proof -
  from mean_std_fin [OF len] obtain mu sigma
    where ms: "mean_s rs = Fin mu" "std_s rs = Fin sigma" by blast
  let ?sims = "map (\<lambda>z. mu + sigma * z) (fst (draws gen n g))"
  have ne: "?sims \<noteq> []" using n length_draws [of gen n g] by (cases "fst (draws gen n g)") auto
  have q: "0 \<le> alpha_of cl * 100" "alpha_of cl * 100 \<le> 100"
    using cl by (simp_all add: alpha_of_def)
  from tail_cvar_ge [OF ne q]
  obtain var c where p: "np_percentile ?sims (alpha_of cl * 100) = Inr var"
    and c: "neg_f (mean_s (filter (\<lambda>r. r \<le> var) ?sims)) = Fin c" "- var \<le> c" by blast
  have "fst (monte_carlo_var gen rs cl n g) = Inr (Fin (- var))"
    by (simp add: monte_carlo_var_fin [OF ms] p)
  moreover have "fst (monte_carlo_cvar gen rs cl n g) = Inr (Fin c)"
    by (simp add: monte_carlo_cvar_fin [OF ms] p c(1))
  ultimately show ?thesis using c(2) by blast
qed

section \<open>A worked sample: mean 0, deviation 0.01\<close>

lemma sqrt_example: "sqrt (1 / 10000) = 1 / 100"
  by (rule real_sqrt_unique) (simp_all add: power2_eq_square)

lemma mean_example: "mean_s [- (1 / 100), 0, 1 / 100] = Fin 0"
  by (simp add: mean_s_def)

lemma std_example: "std_s [- (1 / 100), 0, 1 / 100] = Fin (1 / 100)"
  by (simp add: std_s_def Let_def power2_eq_square sqrt_example)

lemma mc_var_first:
  "monte_carlo_var counter_gen [-0.01, 0, 0.01] 0.95 1 0 = (Inr (Fin 0), 1)"
  by (simp add: monte_carlo_var_def mean_example std_example random_normal_def
      counter_gen_def np_percentile_def alpha_of_def lerp_def Let_def)

lemma mc_var_second:
  "monte_carlo_var counter_gen [-0.01, 0, 0.01] 0.95 1 1 = (Inr (Fin (- 0.01)), 2)"
  by (simp add: monte_carlo_var_def mean_example std_example random_normal_def
      counter_gen_def np_percentile_def alpha_of_def lerp_def Let_def)

lemma mc_cvar_second:
  "monte_carlo_cvar counter_gen [-0.01, 0, 0.01] 0.95 1 1 = (Inr (Fin (- 0.01)), 2)"
  by (simp add: monte_carlo_cvar_def mean_example std_example random_normal_def
      counter_gen_def np_percentile_def alpha_of_def lerp_def Let_def mean_s_def)

text \<open>
  C4, as the code has it. For a series of at least two observations and a confidence
  level in (0, 1): the historical CVaR is at least the historical VaR; the parametric
  CVaR is at least the parametric VaR when the library's density and inverse CDF satisfy
  \<open>pdf (z) \<ge> - alpha * z\<close> at \<open>z = ppf alpha\<close> (the standard normal does; the inequality is
  a hypothesis here); and the Monte Carlo CVaR is at least the Monte Carlo VaR when both
  are computed from the same generator state, that is, from the same simulated sample.
\<close>

theorem cvar_ge_var_per_method:
  assumes len: "2 \<le> length rs" and cl: "0 < cl" "cl < 1" and n: "1 \<le> n"
    and mills: "- (alpha_of cl * norm_ppf (alpha_of cl)) \<le> norm_pdf (norm_ppf (alpha_of cl))"
  shows "(\<exists>v c. historical_var rs cl = Inr (Fin v) \<and> historical_cvar rs cl = Inr (Fin c) \<and> v \<le> c)
       \<and> (\<exists>v c. parametric_var norm_ppf rs cl = Fin v \<and>
                 parametric_cvar norm_ppf norm_pdf rs cl = Fin c \<and> v \<le> c)
       \<and> (\<exists>v c. fst (monte_carlo_var gen rs cl n g) = Inr (Fin v) \<and>
                 fst (monte_carlo_cvar gen rs cl n g) = Inr (Fin c) \<and> v \<le> c)"
proof (intro conjI)
  have ne: "rs \<noteq> []" using len by auto
  have cl': "0 \<le> cl" "cl \<le> 1" using cl by simp_all
  show "\<exists>v c. historical_var rs cl = Inr (Fin v) \<and> historical_cvar rs cl = Inr (Fin c) \<and> v \<le> c"
    by (rule historical_cvar_ge_var [OF ne cl'])
  show "\<exists>v c. parametric_var norm_ppf rs cl = Fin v \<and>
               parametric_cvar norm_ppf norm_pdf rs cl = Fin c \<and> v \<le> c"
    using len cl mills
    by (rule parametric_cvar_ge_var [where norm_ppf = norm_ppf and norm_pdf = norm_pdf])
  show "\<exists>v c. fst (monte_carlo_var gen rs cl n g) = Inr (Fin v) \<and>
               fst (monte_carlo_cvar gen rs cl n g) = Inr (Fin c) \<and> v \<le> c"
    by (rule monte_carlo_cvar_ge_var_same_state [OF len cl' n])
qed

theorem cvar_ge_var_per_method_witness:
  "2 \<le> length [-0.01, 0, 0.01 :: real] \<and> (0::real) < 0.95 \<and> (0.95::real) < 1 \<and> (1::nat) \<le> 1
   \<and> - (alpha_of 0.95 * table_norm_ppf (alpha_of 0.95)) \<le> table_norm_pdf (table_norm_ppf (alpha_of 0.95))
   \<and> (\<exists>v c. historical_var [-0.01, 0, 0.01] 0.95 = Inr (Fin v) \<and>
             historical_cvar [-0.01, 0, 0.01] 0.95 = Inr (Fin c) \<and> v \<le> c)
   \<and> (\<exists>v c. parametric_var table_norm_ppf [-0.01, 0, 0.01] 0.95 = Fin v \<and>
             parametric_cvar table_norm_ppf table_norm_pdf [-0.01, 0, 0.01] 0.95 = Fin c \<and> v \<le> c)
   \<and> (\<exists>v c. fst (monte_carlo_var counter_gen [-0.01, 0, 0.01] 0.95 1 (0::nat)) = Inr (Fin v) \<and>
             fst (monte_carlo_cvar counter_gen [-0.01, 0, 0.01] 0.95 1 0) = Inr (Fin c) \<and> v \<le> c)"
proof -
  have h1: "2 \<le> length [-0.01, 0, 0.01 :: real]" by simp
  have h2: "(0::real) < 0.95" "(0.95::real) < 1" by simp_all
  have h3: "(1::nat) \<le> 1" by simp
  have h4: "- (alpha_of 0.95 * table_norm_ppf (alpha_of 0.95))
              \<le> table_norm_pdf (table_norm_ppf (alpha_of 0.95))"
    by (simp add: alpha_of_def table_norm_ppf_def table_norm_pdf_def)
  have "(\<exists>v c. historical_var [-0.01, 0, 0.01] 0.95 = Inr (Fin v) \<and>
             historical_cvar [-0.01, 0, 0.01] 0.95 = Inr (Fin c) \<and> v \<le> c)
   \<and> (\<exists>v c. parametric_var table_norm_ppf [-0.01, 0, 0.01] 0.95 = Fin v \<and>
             parametric_cvar table_norm_ppf table_norm_pdf [-0.01, 0, 0.01] 0.95 = Fin c \<and> v \<le> c)
   \<and> (\<exists>v c. fst (monte_carlo_var counter_gen [-0.01, 0, 0.01] 0.95 1 (0::nat)) = Inr (Fin v) \<and>
             fst (monte_carlo_cvar counter_gen [-0.01, 0, 0.01] 0.95 1 0) = Inr (Fin c) \<and> v \<le> c)"
    using h1 h2 h3 h4
    by (rule cvar_ge_var_per_method
        [where norm_ppf = table_norm_ppf and norm_pdf = table_norm_pdf])
  then show ?thesis using h1 h2 h3 h4 by blast
qed

text \<open>
  The claim C4 fails for the Monte Carlo pair as the calculator computes it: two calls,
  each drawing its own sample from the global generator. With one simulation per call
  and a generator whose variates increase, \<open>monte_carlo_var\<close> returns 0 and the
  following \<open>monte_carlo_cvar\<close> returns -0.01.
\<close>

theorem monte_carlo_cvar_below_var_counterexample:
  "monte_carlo_var counter_gen [-0.01, 0, 0.01] 0.95 1 0 = (Inr (Fin 0), 1)
   \<and> monte_carlo_cvar counter_gen [-0.01, 0, 0.01] 0.95 1 1 = (Inr (Fin (- 0.01)), 2)
   \<and> (- 0.01 :: real) < 0"
  using mc_var_first mc_cvar_second by simp

section \<open>Constant series and the generator state\<close>

lemma mean_constant:
  assumes "rs \<noteq> []" and "\<forall>x\<in>set rs. x = mu"
  shows "mean_s rs = Fin mu"
proof -
  have "sum_list rs = real (length rs) * mu"
    using assms(2) by (induction rs) (simp_all add: algebra_simps)
  then show ?thesis using assms(1) by (simp add: mean_s_def)
qed

lemma std_constant:
  assumes "2 \<le> length rs" and "\<forall>x\<in>set rs. x = mu"
  shows "std_s rs = Fin 0"
proof -
  have ne: "rs \<noteq> []" using assms(1) by auto
  have s: "sum_list rs = real (length rs) * mu"
    using assms(2) by (induction rs) (simp_all add: algebra_simps)
  have m: "sum_list rs / real (length rs) = mu" using s ne by simp
  have "sum_list (map (\<lambda>x. (x - mu)\<^sup>2) rs) = 0"
    using assms(2) by (induction rs) simp_all
  then show ?thesis using assms(1) by (simp add: std_s_def Let_def m)
qed

lemma np_percentile_constant:
  assumes ne: "xs \<noteq> []" and q0: "0 \<le> q" and q1: "q \<le> 100"
    and c: "\<forall>x\<in>set xs. x = mu"
  shows "np_percentile xs q = Inr mu"
proof -
  from np_percentile_bounds [OF ne q0 q1]
  obtain v x y where p: "np_percentile xs q = Inr v"
    and x: "x \<in> set xs" "x \<le> v" and y: "y \<in> set xs" "v \<le> y" by blast
  have "x = mu" using c x(1) by blast
  moreover have "y = mu" using c y(1) by blast
  ultimately have "v = mu" using x(2) y(2) by linarith
  then show ?thesis using p by simp
qed

lemma parametric_constant:
  assumes len: "2 \<le> length rs" and c: "\<forall>x\<in>set rs. x = mu" and cl: "0 < cl" "cl < 1"
  shows "parametric_var norm_ppf rs cl = Fin (- mu)"
    and "parametric_cvar norm_ppf norm_pdf rs cl = Fin (- mu)"
proof -
  have ne: "rs \<noteq> []" using len by auto
  have ms: "mean_s rs = Fin mu" "std_s rs = Fin 0"
    by (rule mean_constant [OF ne c], rule std_constant [OF len c])
  have a: "0 < alpha_of cl" "alpha_of cl < 1" using cl by (simp_all add: alpha_of_def)
  show "parametric_var norm_ppf rs cl = Fin (- mu)"
    using a by (simp add: parametric_var_def ms Let_def)
  show "parametric_cvar norm_ppf norm_pdf rs cl = Fin (- mu)"
    using a by (simp add: parametric_cvar_def ms Let_def)
qed

lemma monte_carlo_constant:
  assumes len: "2 \<le> length rs" and c: "\<forall>x\<in>set rs. x = mu" and cl: "0 \<le> cl" "cl \<le> 1"
    and n: "1 \<le> n"
  shows "fst (monte_carlo_var gen rs cl n g) = Inr (Fin (- mu))"
    and "fst (monte_carlo_cvar gen rs cl n g) = Inr (Fin (- mu))"
proof -
  have ne: "rs \<noteq> []" using len by auto
  have ms: "mean_s rs = Fin mu" "std_s rs = Fin 0"
    by (rule mean_constant [OF ne c], rule std_constant [OF len c])
  let ?sims = "map (\<lambda>z. mu + 0 * z) (fst (draws gen n g))"
  have sne: "?sims \<noteq> []"
    using n length_draws [of gen n g] by (cases "fst (draws gen n g)") auto
  have sc: "\<forall>x\<in>set ?sims. x = mu" by simp
  have q: "0 \<le> alpha_of cl * 100" "alpha_of cl * 100 \<le> 100"
    using cl by (simp_all add: alpha_of_def)
  have p: "np_percentile ?sims (alpha_of cl * 100) = Inr mu"
    by (rule np_percentile_constant [OF sne q sc])
  show "fst (monte_carlo_var gen rs cl n g) = Inr (Fin (- mu))"
    unfolding monte_carlo_var_fin [OF ms] fst_conv p by simp
  have f: "filter (\<lambda>r. r \<le> mu) ?sims = ?sims" by simp
  have "mean_s ?sims = Fin mu" by (rule mean_constant [OF sne sc])
  then show "fst (monte_carlo_cvar gen rs cl n g) = Inr (Fin (- mu))"
    unfolding monte_carlo_cvar_fin [OF ms] fst_conv p by (simp only: sum.case f neg_f.simps)
qed

lemma single_observation_nan:
  "parametric_var table_norm_ppf [0.01] 0.95 = NaN"
  "parametric_cvar table_norm_ppf table_norm_pdf [0.01] 0.95 = NaN"
  "fst (monte_carlo_var counter_gen [0.01] 0.95 1 0) = Inr NaN"
  "fst (monte_carlo_cvar counter_gen [0.01] 0.95 1 0) = Inr NaN"
  by (simp_all add: parametric_var_def parametric_cvar_def monte_carlo_var_def
      monte_carlo_cvar_def mean_s_def std_s_def alpha_of_def Let_def)

lemma monte_carlo_state:
  "snd (monte_carlo_var gen rs cl n g) = ((\<lambda>s. snd (gen s)) ^^ n) g"
  "snd (monte_carlo_cvar gen rs cl n g) = ((\<lambda>s. snd (gen s)) ^^ n) g"
  by (simp_all add: monte_carlo_var_def monte_carlo_cvar_def random_normal_eq Let_def
      snd_draws split: npfloat.splits sum.splits)

lemma monte_carlo_same_draws:
  assumes "fst (draws gen n g) = fst (draws gen n g')"
  shows "fst (monte_carlo_var gen rs cl n g) = fst (monte_carlo_var gen rs cl n g')"
    and "fst (monte_carlo_cvar gen rs cl n g) = fst (monte_carlo_cvar gen rs cl n g')"
  using assms
  by (simp_all add: monte_carlo_var_def monte_carlo_cvar_def random_normal_eq Let_def
      split: npfloat.splits sum.splits)

text \<open>
  C9, as the code has it. On a constant series of at least two observations with common
  value \<open>mu\<close> the sample deviation is 0, and for a confidence level in (0, 1) and at
  least one simulation the parametric and Monte Carlo VaR and CVaR all return the finite
  value \<open>- mu\<close>.
\<close>

theorem constant_series_var_is_neg_mu:
  assumes "2 \<le> length rs" and "\<forall>x\<in>set rs. x = mu" and "0 < cl" and "cl < 1" and "1 \<le> n"
  shows "parametric_var norm_ppf rs cl = Fin (- mu)
       \<and> parametric_cvar norm_ppf norm_pdf rs cl = Fin (- mu)
       \<and> fst (monte_carlo_var gen rs cl n g) = Inr (Fin (- mu))
       \<and> fst (monte_carlo_cvar gen rs cl n g) = Inr (Fin (- mu))"
proof -
  have cl': "0 \<le> cl" "cl \<le> 1" using assms(3,4) by simp_all
  have "parametric_var norm_ppf rs cl = Fin (- mu)"
    using assms(1-4) by (rule parametric_constant(1))
  moreover have "parametric_cvar norm_ppf norm_pdf rs cl = Fin (- mu)"
    using assms(1-4) by (rule parametric_constant(2))
  moreover have "fst (monte_carlo_var gen rs cl n g) = Inr (Fin (- mu))"
    using assms(1,2) cl' assms(5) by (rule monte_carlo_constant(1))
  moreover have "fst (monte_carlo_cvar gen rs cl n g) = Inr (Fin (- mu))"
    using assms(1,2) cl' assms(5) by (rule monte_carlo_constant(2))
  ultimately show ?thesis by blast
qed

theorem constant_series_var_is_neg_mu_witness:
  "2 \<le> length [0.01, 0.01 :: real] \<and> set [0.01, 0.01 :: real] = {0.01}
   \<and> (0::real) < 0.95 \<and> (0.95::real) < 1 \<and> (1::nat) \<le> 1
   \<and> parametric_var table_norm_ppf [0.01, 0.01] 0.95 = Fin (- 0.01)
   \<and> parametric_cvar table_norm_ppf table_norm_pdf [0.01, 0.01] 0.95 = Fin (- 0.01)
   \<and> fst (monte_carlo_var counter_gen [0.01, 0.01] 0.95 1 (0::nat)) = Inr (Fin (- 0.01))
   \<and> fst (monte_carlo_cvar counter_gen [0.01, 0.01] 0.95 1 (0::nat)) = Inr (Fin (- 0.01))"
proof -
  have h1: "2 \<le> length [0.01, 0.01 :: real]" by simp
  have h2: "\<forall>x\<in>set [0.01, 0.01 :: real]. x = 0.01" by simp
  have h3: "(0::real) < 0.95" "(0.95::real) < 1" by simp_all
  have h4: "(1::nat) \<le> 1" by simp
  have "parametric_var table_norm_ppf [0.01, 0.01] 0.95 = Fin (- 0.01)
   \<and> parametric_cvar table_norm_ppf table_norm_pdf [0.01, 0.01] 0.95 = Fin (- 0.01)
   \<and> fst (monte_carlo_var counter_gen [0.01, 0.01] 0.95 1 (0::nat)) = Inr (Fin (- 0.01))
   \<and> fst (monte_carlo_cvar counter_gen [0.01, 0.01] 0.95 1 (0::nat)) = Inr (Fin (- 0.01))"
    using h1 h2 h3 h4 by (rule constant_series_var_is_neg_mu)
  moreover have "set [0.01, 0.01 :: real] = {0.01}" by simp
  ultimately show ?thesis using h1 h3 h4 by blast
qed

text \<open>
  The claim C9 fails on a constant series of one observation: the sample deviation of a
  single value is NaN, and the parametric and Monte Carlo values are NaN with it.
\<close>

theorem single_observation_counterexample:
  "parametric_var table_norm_ppf [0.01] 0.95 = NaN
   \<and> parametric_cvar table_norm_ppf table_norm_pdf [0.01] 0.95 = NaN
   \<and> fst (monte_carlo_var counter_gen [0.01] 0.95 1 0) = Inr NaN
   \<and> fst (monte_carlo_cvar counter_gen [0.01] 0.95 1 0) = Inr NaN"
  using single_observation_nan by simp

text \<open>
  C8, as the code has it. The Monte Carlo functions take no seed and no generator: they
  read numpy's global generator. A call consumes \<open>n_simulations\<close> variates and leaves
  the global state advanced by as many steps; its value is determined by its arguments
  and the variates drawn, so two calls agree when their generator states yield the same
  variates.
\<close>

theorem monte_carlo_reads_global_generator:
  "snd (monte_carlo_var gen rs cl n g) = ((\<lambda>s. snd (gen s)) ^^ n) g
   \<and> snd (monte_carlo_cvar gen rs cl n g) = ((\<lambda>s. snd (gen s)) ^^ n) g
   \<and> (fst (draws gen n g) = fst (draws gen n g') \<longrightarrow>
        fst (monte_carlo_var gen rs cl n g) = fst (monte_carlo_var gen rs cl n g')
        \<and> fst (monte_carlo_cvar gen rs cl n g) = fst (monte_carlo_cvar gen rs cl n g'))"
  using monte_carlo_state [of gen rs cl n g] monte_carlo_same_draws [of gen n g g' rs cl]
  by simp

theorem monte_carlo_reads_global_generator_witness:
  "fst (draws counter_gen 1 (0::nat)) = fst (draws counter_gen 1 0)
   \<and> snd (monte_carlo_var counter_gen [-0.01, 0, 0.01] 0.95 1 (0::nat)) =
       ((\<lambda>s. snd (counter_gen s)) ^^ 1) 0
   \<and> fst (monte_carlo_var counter_gen [-0.01, 0, 0.01] 0.95 1 (0::nat)) =
       fst (monte_carlo_var counter_gen [-0.01, 0, 0.01] 0.95 1 0)"
proof -
  have h: "fst (draws counter_gen 1 (0::nat)) = fst (draws counter_gen 1 0)" ..
  from monte_carlo_reads_global_generator
    [of counter_gen "[-0.01, 0, 0.01]" "0.95" 1 0 0]
  show ?thesis using h by blast
qed

text \<open>
  The claim C8 fails: with the same arguments, a second call starts from the state the
  first one left and returns another value.
\<close>

theorem monte_carlo_repeat_counterexample:
  "monte_carlo_var counter_gen [-0.01, 0, 0.01] 0.95 1 0 = (Inr (Fin 0), 1)
   \<and> monte_carlo_var counter_gen [-0.01, 0, 0.01] 0.95 1 1 = (Inr (Fin (- 0.01)), 2)
   \<and> Fin 0 \<noteq> Fin (- 0.01)"
  using mc_var_first mc_var_second by simp

text \<open>
  C5. With at least two observations and a confidence level in (0, 1) the parametric VaR
  is \<open>- (mu + sigma * z)\<close> for the sample mean, the sample standard deviation and the
  inverse normal CDF at \<open>1 - confidence_level\<close>. The series -0.01, 0, 0.01 has mean 0 and
  deviation 0.01; at confidence 0.95, with an inverse CDF within 0.0005 of -1.645 at 0.05,
  the value is within 0.00001 of 0.01645.
\<close>

theorem parametric_var_formula:
  assumes "2 \<le> length rs" and "0 < cl" and "cl < 1"
    and "\<bar>norm_ppf 0.05 + 1.645\<bar> \<le> 0.0005"
  shows "parametric_var norm_ppf rs cl =
           Fin (- (sum_list rs / real (length rs)
                   + sqrt (sum_list (map (\<lambda>x. (x - sum_list rs / real (length rs))\<^sup>2) rs)
                           / real (length rs - 1))
                     * norm_ppf (1 - cl)))
       \<and> mean_s [-0.01, 0, 0.01] = Fin 0 \<and> std_s [-0.01, 0, 0.01] = Fin 0.01
       \<and> (\<exists>v. parametric_var norm_ppf [-0.01, 0, 0.01] 0.95 = Fin v \<and> \<bar>v - 0.01645\<bar> \<le> 0.00001)"
proof (intro conjI)
  have a: "0 < alpha_of cl" "alpha_of cl < 1" using assms(2,3) by (simp_all add: alpha_of_def)
  have ne: "rs \<noteq> []" using assms(1) by auto
  show "parametric_var norm_ppf rs cl =
           Fin (- (sum_list rs / real (length rs)
                   + sqrt (sum_list (map (\<lambda>x. (x - sum_list rs / real (length rs))\<^sup>2) rs)
                           / real (length rs - 1))
                     * norm_ppf (1 - cl)))"
    using assms(1) a ne
    by (simp add: parametric_var_def mean_s_def std_s_def Let_def) (simp add: alpha_of_def)
  show m: "mean_s [-0.01, 0, 0.01] = Fin 0" using mean_example by simp
  show sd: "std_s [-0.01, 0, 0.01] = Fin 0.01" using std_example by simp
  have z: "\<bar>norm_ppf (1 / 20) + 1645 / 1000\<bar> \<le> 5 / 10000" using assms(4) by simp
  have v: "parametric_var norm_ppf [-0.01, 0, 0.01] 0.95 = Fin (- (norm_ppf (1 / 20) / 100))"
    by (simp add: parametric_var_def mean_example std_example alpha_of_def Let_def)
  have "- (5 / 10000) \<le> norm_ppf (1 / 20) + 1645 / 1000"
    and "norm_ppf (1 / 20) + 1645 / 1000 \<le> 5 / 10000"
    using z unfolding abs_le_iff by linarith+
  then have "\<bar>- (norm_ppf (1 / 20) / 100) - 0.01645\<bar> \<le> 0.00001"
    unfolding abs_le_iff by simp
  then show "\<exists>v. parametric_var norm_ppf [-0.01, 0, 0.01] 0.95 = Fin v \<and> \<bar>v - 0.01645\<bar> \<le> 0.00001"
    using v by blast
qed

theorem parametric_var_formula_witness:
  "2 \<le> length [-0.01, 0, 0.01 :: real] \<and> (0::real) < 0.95 \<and> (0.95::real) < 1
   \<and> \<bar>table_norm_ppf 0.05 + 1.645\<bar> \<le> 0.0005
   \<and> (\<exists>v. parametric_var table_norm_ppf [-0.01, 0, 0.01] 0.95 = Fin v \<and> \<bar>v - 0.01645\<bar> \<le> 0.00001)"
proof -
  have h1: "2 \<le> length [-0.01, 0, 0.01 :: real]" by simp
  have h2: "(0::real) < 0.95" "(0.95::real) < 1" by simp_all
  have h3: "\<bar>table_norm_ppf 0.05 + 1.645\<bar> \<le> 0.0005" by (simp add: table_norm_ppf_def)
  have "parametric_var table_norm_ppf [-0.01, 0, 0.01] 0.95 =
           Fin (- (sum_list [-0.01, 0, 0.01] / real (length [-0.01, 0, 0.01 :: real])
                   + sqrt (sum_list (map (\<lambda>x. (x - sum_list [-0.01, 0, 0.01]
                                               / real (length [-0.01, 0, 0.01 :: real]))\<^sup>2)
                                      [-0.01, 0, 0.01])
                           / real (length [-0.01, 0, 0.01 :: real] - 1))
                     * table_norm_ppf (1 - 0.95)))
       \<and> mean_s [-0.01, 0, 0.01] = Fin 0 \<and> std_s [-0.01, 0, 0.01] = Fin 0.01
       \<and> (\<exists>v. parametric_var table_norm_ppf [-0.01, 0, 0.01] 0.95 = Fin v
               \<and> \<bar>v - 0.01645\<bar> \<le> 0.00001)"
    using h1 h2 h3 by (rule parametric_var_formula [where norm_ppf = table_norm_ppf])
  then show ?thesis using h1 h2 h3 by blast
qed

section \<open>The Kupiec test\<close>

lemma violations_count:
  "length (filter (\<lambda>b. b) (map (\<lambda>(r, v). v < - r) ps)) = length (filter (\<lambda>(r, v). v < - r) ps)"
  by (induction ps) auto

lemma kupiec_counts:
  assumes len: "length rs = length vs"
    and x: "x = length (filter (\<lambda>(r, v). v < - r) (zip rs vs))"
    and n: "n = length rs"
  shows "kupiec_test chi2_cdf rs vs cl =
     (let rate = real x / real n;
          alpha = alpha_of cl;
          base = \<lparr>n_violations = x, n_observations = n,
                  violation_rate = (if n = 0 then NaN else Fin rate),
                  expected_rate = alpha,
                  lr_statistic = Fin 0, p_value = Fin 1, reject_null = False\<rparr>
      in if x = 0 \<or> x = n then Inr base
         else if 0 < alpha \<and> alpha < 1 then
           let lr_stat = - 2 * (real x * ln alpha +
                                real (n - x) * ln (1 - alpha) -
                                real x * ln rate -
                                real (n - x) * ln (1 - rate));
               p = 1 - chi2_cdf lr_stat
           in Inr (base\<lparr>lr_statistic := Fin lr_stat, p_value := Fin p,
                         reject_null := (p < 0.05)\<rparr>)
         else if alpha = 0 \<or> alpha = 1 then
           Inr (base\<lparr>lr_statistic := PInf, p_value := Fin 0, reject_null := True\<rparr>)
         else Inr (base\<lparr>lr_statistic := NaN, p_value := NaN, reject_null := False\<rparr>))"
proof -
  define V where "V = map (\<lambda>(r, v). v < - r) (zip rs vs)"
  have gv: "get_violations rs vs = Inr V"
    using len by (simp add: get_violations_def V_def)
  have cx: "length (filter (\<lambda>b. b) V) = x"
    unfolding V_def x by (rule violations_count)
  have cn: "length V = n" using len n by (simp add: V_def)
  show ?thesis
    unfolding kupiec_test_def gv sum.case Let_def cx cn ..
qed

lemma kupiec_degenerate:
  assumes len: "length rs = length vs"
    and x: "x = length (filter (\<lambda>(r, v). v < - r) (zip rs vs))"
    and n: "n = length rs"
    and deg: "x = 0 \<or> x = n"
  shows "\<exists>res. kupiec_test chi2_cdf rs vs cl = Inr res \<and>
           n_violations res = x \<and> n_observations res = n \<and>
           lr_statistic res = Fin 0 \<and> p_value res = Fin 1 \<and> \<not> reject_null res"
  unfolding kupiec_counts [OF len x n] Let_def if_P [OF deg] by simp

lemma kupiec_regular:
  assumes len: "length rs = length vs"
    and x: "x = length (filter (\<lambda>(r, v). v < - r) (zip rs vs))"
    and n: "n = length rs"
    and reg: "0 < x" "x < n" and cl: "0 < cl" "cl < 1"
  shows "\<exists>res. kupiec_test chi2_cdf rs vs cl = Inr res \<and>
           n_violations res = x \<and> n_observations res = n \<and>
           lr_statistic res = Fin (spec_kupiec_lr x n (1 - cl)) \<and>
           p_value res = Fin (1 - chi2_cdf (spec_kupiec_lr x n (1 - cl))) \<and>
           reject_null res = (1 - chi2_cdf (spec_kupiec_lr x n (1 - cl)) < 0.05)"
proof -
  have a: "0 < alpha_of cl \<and> alpha_of cl < 1" using cl by (simp add: alpha_of_def)
  have nx: "\<not> (x = 0 \<or> x = n)" using reg by simp
  have lr: "- 2 * (real x * ln (alpha_of cl) + real (n - x) * ln (1 - alpha_of cl) -
                   real x * ln (real x / real n) -
                   real (n - x) * ln (1 - real x / real n)) = spec_kupiec_lr x n (1 - cl)"
    by (simp add: spec_kupiec_lr_def alpha_of_def)
  show ?thesis
    unfolding kupiec_counts [OF len x n] Let_def if_not_P [OF nx] if_P [OF a] lr by simp
qed

text \<open>
  C3. With \<open>x\<close> violations among \<open>n\<close> observations: in the degenerate cases \<open>x = 0\<close> and
  \<open>x = n\<close> the test returns statistic 0, p-value 1 and no rejection from the first branch,
  which holds no logarithm; for \<open>0 < x < n\<close> and a confidence level in (0, 1), where the
  logarithms of the formula are those of positive numbers, it returns the spec's
  likelihood ratio, one minus the chi-square CDF of it, and rejects when that p-value is
  below 0.05.
\<close>

theorem kupiec_test_statistic:
  assumes "length rs = length vs"
    and "x = length (filter (\<lambda>(r, v). v < - r) (zip rs vs))"
    and "n = length rs"
  shows "(x = 0 \<or> x = n \<longrightarrow>
            (\<exists>res. kupiec_test chi2_cdf rs vs cl = Inr res \<and>
               n_violations res = x \<and> n_observations res = n \<and>
               lr_statistic res = Fin 0 \<and> p_value res = Fin 1 \<and> \<not> reject_null res))
       \<and> (0 < x \<and> x < n \<and> 0 < cl \<and> cl < 1 \<longrightarrow>
            (\<exists>res. kupiec_test chi2_cdf rs vs cl = Inr res \<and>
               n_violations res = x \<and> n_observations res = n \<and>
               lr_statistic res = Fin (spec_kupiec_lr x n (1 - cl)) \<and>
               p_value res = Fin (1 - chi2_cdf (spec_kupiec_lr x n (1 - cl))) \<and>
               reject_null res = (1 - chi2_cdf (spec_kupiec_lr x n (1 - cl)) < 0.05)))"
proof (intro conjI impI)
  assume "x = 0 \<or> x = n"
  with assms show "\<exists>res. kupiec_test chi2_cdf rs vs cl = Inr res \<and>
               n_violations res = x \<and> n_observations res = n \<and>
               lr_statistic res = Fin 0 \<and> p_value res = Fin 1 \<and> \<not> reject_null res"
    by (rule kupiec_degenerate)
next
  assume h: "0 < x \<and> x < n \<and> 0 < cl \<and> cl < 1"
  show "\<exists>res. kupiec_test chi2_cdf rs vs cl = Inr res \<and>
               n_violations res = x \<and> n_observations res = n \<and>
               lr_statistic res = Fin (spec_kupiec_lr x n (1 - cl)) \<and>
               p_value res = Fin (1 - chi2_cdf (spec_kupiec_lr x n (1 - cl))) \<and>
               reject_null res = (1 - chi2_cdf (spec_kupiec_lr x n (1 - cl)) < 0.05)"
    using assms h by (intro kupiec_regular) simp_all
qed

theorem kupiec_test_statistic_witness:
  "length [0.01, 0.02 :: real] = length [0.02, 0.02 :: real]
   \<and> (0::nat) = length (filter (\<lambda>(r, v). v < - r) (zip [0.01, 0.02 :: real] [0.02, 0.02]))
   \<and> (\<exists>res. kupiec_test table_chi2_cdf [0.01, 0.02] [0.02, 0.02] 0.95 = Inr res \<and>
          lr_statistic res = Fin 0 \<and> p_value res = Fin 1 \<and> \<not> reject_null res)
   \<and> length [-0.05, 0.01 :: real] = length [0.02, 0.02 :: real]
   \<and> (1::nat) = length (filter (\<lambda>(r, v). v < - r) (zip [-0.05, 0.01 :: real] [0.02, 0.02]))
   \<and> (0::nat) < 1 \<and> (1::nat) < 2 \<and> (0::real) < 0.95 \<and> (0.95::real) < 1
   \<and> (\<exists>res. kupiec_test table_chi2_cdf [-0.05, 0.01] [0.02, 0.02] 0.95 = Inr res \<and>
          lr_statistic res = Fin (spec_kupiec_lr 1 2 (1 - 0.95)) \<and>
          p_value res = Fin (1 - table_chi2_cdf (spec_kupiec_lr 1 2 (1 - 0.95))))"
proof -
  have a1: "length [0.01, 0.02 :: real] = length [0.02, 0.02 :: real]" by simp
  have a2: "(0::nat) = length (filter (\<lambda>(r, v). v < - r) (zip [0.01, 0.02 :: real] [0.02, 0.02]))"
    by simp
  have a3: "(2::nat) = length [0.01, 0.02 :: real]" by simp
  have b1: "length [-0.05, 0.01 :: real] = length [0.02, 0.02 :: real]" by simp
  have b2: "(1::nat) = length (filter (\<lambda>(r, v). v < - r) (zip [-0.05, 0.01 :: real] [0.02, 0.02]))"
    by simp
  have b3: "(2::nat) = length [-0.05, 0.01 :: real]" by simp
  have b4: "(0::nat) < 1 \<and> (1::nat) < 2 \<and> (0::real) < 0.95 \<and> (0.95::real) < 1" by simp
  from kupiec_test_statistic [OF a1 a2 a3, where chi2_cdf = table_chi2_cdf and cl = "0.95"]
  have A: "\<exists>res. kupiec_test table_chi2_cdf [0.01, 0.02] [0.02, 0.02] 0.95 = Inr res \<and>
          lr_statistic res = Fin 0 \<and> p_value res = Fin 1 \<and> \<not> reject_null res"
    by blast
  from kupiec_test_statistic [OF b1 b2 b3, where chi2_cdf = table_chi2_cdf and cl = "0.95"] b4
  have B: "\<exists>res. kupiec_test table_chi2_cdf [-0.05, 0.01] [0.02, 0.02] 0.95 = Inr res \<and>
          lr_statistic res = Fin (spec_kupiec_lr 1 2 (1 - 0.95)) \<and>
          p_value res = Fin (1 - table_chi2_cdf (spec_kupiec_lr 1 2 (1 - 0.95)))"
    by blast
  show ?thesis using a1 a2 A b1 b2 b4 B by blast
qed

section \<open>The portfolio constructor\<close>

lemma isclose_one: "isclose s 1 = (\<bar>s - 1\<bar> \<le> 1 / 10 ^ 8 + 1 / 10 ^ 5)"
  by (simp add: isclose_def)

lemma portfolio_default:
  "Portfolio_init df None =
     Inr \<lparr>returns = df, assets = columns df, n_assets = length (columns df),
          weights = replicate (length (columns df)) (1 / real (length (columns df)))\<rparr>"
  by (simp add: Portfolio_init_def Let_def)

lemma portfolio_given:
  "Portfolio_init df (Some w) =
     (if \<bar>sum_list w - 1\<bar> \<le> 1 / 10 ^ 8 + 1 / 10 ^ 5
      then Inr \<lparr>returns = df, assets = columns df, n_assets = length (columns df), weights = w\<rparr>
      else Inl AssertionError)"
  by (simp add: Portfolio_init_def Let_def isclose_one)

lemma portfolio_cex1:
  "Portfolio_init \<lparr>columns = [''A'', ''B''], data_rows = [[0.01, 0.02]]\<rparr> (Some [1]) =
     Inr \<lparr>returns = \<lparr>columns = [''A'', ''B''], data_rows = [[0.01, 0.02]]\<rparr>,
          assets = [''A'', ''B''], n_assets = 2, weights = [1]\<rparr>"
  by (simp add: Portfolio_init_def Let_def isclose_def)

lemma portfolio_cex2:
  "Portfolio_init \<lparr>columns = [''A'', ''B''], data_rows = [[0.01, 0.02]]\<rparr> (Some [0.5, 0.500001]) =
     Inr \<lparr>returns = \<lparr>columns = [''A'', ''B''], data_rows = [[0.01, 0.02]]\<rparr>,
          assets = [''A'', ''B''], n_assets = 2, weights = [0.5, 0.500001]\<rparr>"
  by (simp add: Portfolio_init_def Let_def isclose_def)

text \<open>
  C6, as the code has it. The constructor never looks at the number of weights. Without
  weights it takes the uniform ones and succeeds. With weights it succeeds exactly when
  their sum is within \<open>1e-8 + 1e-5\<close> of 1 (numpy's default tolerances), and fails the
  assertion otherwise.
\<close>

theorem portfolio_init_checks_weight_sum:
  "Portfolio_init df None =
     Inr \<lparr>returns = df, assets = columns df, n_assets = length (columns df),
          weights = replicate (length (columns df)) (1 / real (length (columns df)))\<rparr>
   \<and> (\<bar>sum_list w - 1\<bar> \<le> 1 / 10 ^ 8 + 1 / 10 ^ 5 \<longrightarrow>
        Portfolio_init df (Some w) =
          Inr \<lparr>returns = df, assets = columns df, n_assets = length (columns df), weights = w\<rparr>)
   \<and> (\<not> \<bar>sum_list w - 1\<bar> \<le> 1 / 10 ^ 8 + 1 / 10 ^ 5 \<longrightarrow>
        Portfolio_init df (Some w) = Inl AssertionError)"
  by (simp add: portfolio_default portfolio_given)

theorem portfolio_init_checks_weight_sum_witness:
  "\<bar>sum_list [0.5, 0.5 :: real] - 1\<bar> \<le> 1 / 10 ^ 8 + 1 / 10 ^ 5
   \<and> Portfolio_init \<lparr>columns = [''A'', ''B''], data_rows = [[0.01, 0.02]]\<rparr> (Some [0.5, 0.5]) =
       Inr \<lparr>returns = \<lparr>columns = [''A'', ''B''], data_rows = [[0.01, 0.02]]\<rparr>,
            assets = [''A'', ''B''], n_assets = 2, weights = [0.5, 0.5]\<rparr>
   \<and> \<not> \<bar>sum_list [0.5, 0.6 :: real] - 1\<bar> \<le> 1 / 10 ^ 8 + 1 / 10 ^ 5
   \<and> Portfolio_init \<lparr>columns = [''A'', ''B''], data_rows = [[0.01, 0.02]]\<rparr> (Some [0.5, 0.6]) =
       Inl AssertionError"
proof -
  have h1: "\<bar>sum_list [0.5, 0.5 :: real] - 1\<bar> \<le> 1 / 10 ^ 8 + 1 / 10 ^ 5" by simp
  have h2: "\<not> \<bar>sum_list [0.5, 0.6 :: real] - 1\<bar> \<le> 1 / 10 ^ 8 + 1 / 10 ^ 5" by simp
  from portfolio_init_checks_weight_sum
    [of "\<lparr>columns = [''A'', ''B''], data_rows = [[0.01, 0.02]]\<rparr>" "[0.5, 0.5]"] h1
  have A: "Portfolio_init \<lparr>columns = [''A'', ''B''], data_rows = [[0.01, 0.02]]\<rparr> (Some [0.5, 0.5]) =
       Inr \<lparr>returns = \<lparr>columns = [''A'', ''B''], data_rows = [[0.01, 0.02]]\<rparr>,
            assets = [''A'', ''B''], n_assets = 2, weights = [0.5, 0.5]\<rparr>"
    by simp
  from portfolio_init_checks_weight_sum
    [of "\<lparr>columns = [''A'', ''B''], data_rows = [[0.01, 0.02]]\<rparr>" "[0.5, 0.6]"] h2
  have B: "Portfolio_init \<lparr>columns = [''A'', ''B''], data_rows = [[0.01, 0.02]]\<rparr> (Some [0.5, 0.6]) =
       Inl AssertionError"
    by blast
  show ?thesis using h1 A h2 B by blast
qed

text \<open>
  The claim C6 fails twice over: one weight for two assets is accepted, and so are two
  weights whose sum is \<open>1e-6\<close> away from 1, a thousand times the spec's tolerance.
\<close>

theorem portfolio_init_counterexample:
  "Portfolio_init \<lparr>columns = [''A'', ''B''], data_rows = [[0.01, 0.02]]\<rparr> (Some [1]) =
     Inr \<lparr>returns = \<lparr>columns = [''A'', ''B''], data_rows = [[0.01, 0.02]]\<rparr>,
          assets = [''A'', ''B''], n_assets = 2, weights = [1]\<rparr>
   \<and> length [1 :: real] \<noteq> length [''A'', ''B'']
   \<and> Portfolio_init \<lparr>columns = [''A'', ''B''], data_rows = [[0.01, 0.02]]\<rparr>
        (Some [0.5, 0.500001]) =
     Inr \<lparr>returns = \<lparr>columns = [''A'', ''B''], data_rows = [[0.01, 0.02]]\<rparr>,
          assets = [''A'', ''B''], n_assets = 2, weights = [0.5, 0.500001]\<rparr>
   \<and> 1 / 10 ^ 9 < \<bar>sum_list [0.5, 0.500001 :: real] - 1\<bar>"
  using portfolio_cex1 portfolio_cex2 by simp

section \<open>The rolling backtest\<close>

lemma historical_var_ok:
  assumes "wr \<noteq> []" and "0 \<le> cl" and "cl \<le> 1"
  shows "\<exists>v. historical_var wr cl = Inr v"
  using historical_var_quantile [OF assms] by blast

lemma monte_carlo_var_ok:
  assumes cl: "0 \<le> cl" "cl \<le> 1" and n: "1 \<le> n"
  shows "\<exists>v. fst (monte_carlo_var gen wr cl n g) = Inr v"
proof -
  have q: "0 \<le> alpha_of cl * 100" "alpha_of cl * 100 \<le> 100"
    using cl by (simp_all add: alpha_of_def)
  have nq: "\<not> (alpha_of cl * 100 < 0 \<or> 100 < alpha_of cl * 100)" using q by simp
  have n0: "n \<noteq> 0" using n by simp
  show ?thesis
  proof (cases "\<exists>mu sigma. mean_s wr = Fin mu \<and> std_s wr = Fin sigma")
    case True
    then obtain mu sigma where ms: "mean_s wr = Fin mu" "std_s wr = Fin sigma" by blast
    let ?sims = "map (\<lambda>z. mu + sigma * z) (fst (draws gen n g))"
    have ne: "?sims \<noteq> []"
      using n length_draws [of gen n g] by (cases "fst (draws gen n g)") auto
    from np_percentile_bounds [OF ne q]
    obtain var where "np_percentile ?sims (alpha_of cl * 100) = Inr var" by blast
    then show ?thesis by (simp add: monte_carlo_var_fin [OF ms])
  next
    case False
    then show ?thesis using nq n0
      by (cases "mean_s wr"; cases "std_s wr") (simp_all add: monte_carlo_var_def Let_def)
  qed
qed

lemma window_var_valid:
  assumes m: "m = ''historical'' \<or> m = ''parametric'' \<or> m = ''monte_carlo''"
    and ne: "wr \<noteq> []" and cl: "0 \<le> cl" "cl \<le> 1"
  shows "\<exists>v g'. window_var gen ppf m wr cl var g = Inr (Some v, g') \<and>
                window_estimate gen ppf m wr cl v"
proof -
  consider "m = ''historical''" | "m = ''parametric''" | "m = ''monte_carlo''"
    using m by blast
  then show ?thesis
  proof cases
    case 1
    from historical_var_ok [OF ne cl] obtain v where "historical_var wr cl = Inr v" ..
    then show ?thesis using 1 by (simp add: window_var_def window_estimate_def)
  next
    case 2
    then show ?thesis by (simp add: window_var_def window_estimate_def)
  next
    case 3
    have "1 \<le> default_n_simulations" by (simp add: default_n_simulations_def)
    from monte_carlo_var_ok [OF cl this, of gen wr g]
    obtain v where v: "fst (monte_carlo_var gen wr cl default_n_simulations g) = Inr v" ..
    then obtain g' where mc: "monte_carlo_var gen wr cl default_n_simulations g = (Inr v, g')"
      by (cases "monte_carlo_var gen wr cl default_n_simulations g") simp
    have ex: "\<exists>s. fst (monte_carlo_var gen wr cl default_n_simulations s) = Inr v"
      using v by (rule exI)
    have w: "window_var gen ppf m wr cl var g = Inr (Some v, g')"
      using 3 by (simp add: window_var_def mc)
    have "window_estimate gen ppf m wr cl v"
      unfolding window_estimate_def using 3 ex by blast
    then show ?thesis using w by blast
  qed
qed

lemma rolling_loop_valid:
  assumes m: "m = ''historical'' \<or> m = ''parametric'' \<or> m = ''monte_carlo''"
    and cl: "0 \<le> cl" "cl \<le> 1"
    and ne: "\<forall>i\<in>set is. take W (drop (i - W) rs) \<noteq> []"
  shows "\<exists>var' vs g'.
           rolling_loop gen ppf rs cl W m is (var, ests, acts, g) =
             Inr (var', ests @ vs, acts @ map (\<lambda>i. rs ! i) is, g') \<and>
           list_all2 (\<lambda>i v. window_estimate gen ppf m (take W (drop (i - W) rs)) cl v) is vs"
  using ne
proof (induction "is" arbitrary: var ests acts g)
  case Nil
  show ?case by simp
next
  case (Cons i "is")
  let ?wr = "take W (drop (i - W) rs)"
  have wne: "?wr \<noteq> []" using Cons.prems by simp
  from window_var_valid [OF m wne cl, of gen ppf var g]
  obtain v g1 where wv: "window_var gen ppf m ?wr cl var g = Inr (Some v, g1)"
    and ok: "window_estimate gen ppf m ?wr cl v"
    by blast
  have body: "rolling_body gen ppf rs cl W m i (var, ests, acts, g) =
                Inr (Some v, ests @ [v], acts @ [rs ! i], g1)"
    by (simp add: rolling_body_def wv Let_def)
  have rest: "\<forall>j\<in>set is. take W (drop (j - W) rs) \<noteq> []" using Cons.prems by simp
  from Cons.IH [OF rest, of "Some v" "ests @ [v]" "acts @ [rs ! i]" g1]
  obtain var' vs g' where
    loop: "rolling_loop gen ppf rs cl W m is (Some v, ests @ [v], acts @ [rs ! i], g1) =
             Inr (var', (ests @ [v]) @ vs, (acts @ [rs ! i]) @ map (\<lambda>i. rs ! i) is, g')"
    and all: "list_all2 (\<lambda>i v. window_estimate gen ppf m (take W (drop (i - W) rs)) cl v) is vs"
    by blast
  have "rolling_loop gen ppf rs cl W m (i # is) (var, ests, acts, g) =
          Inr (var', ests @ (v # vs), acts @ map (\<lambda>i. rs ! i) (i # is), g')"
    using loop by (simp add: body)
  moreover have "list_all2 (\<lambda>i v. window_estimate gen ppf m (take W (drop (i - W) rs)) cl v)
                   (i # is) (v # vs)"
    using ok all by simp
  ultimately show ?case by blast
qed

lemma rolling_valid:
  assumes m: "m = ''historical'' \<or> m = ''parametric'' \<or> m = ''monte_carlo''"
    and W: "0 < W" "W < length rs" and cl: "0 \<le> cl" "cl \<le> 1"
  shows "\<exists>ests acts g'.
           rolling_var_backtest gen ppf rs cl W m g = Inr ((ests, acts), g') \<and>
           length ests = length rs - W \<and> length acts = length rs - W \<and>
           (\<forall>k<length rs - W.
              acts ! k = rs ! (W + k) \<and>
              window_estimate gen ppf m (take W (drop k rs)) cl (ests ! k))"
proof -
  have ne: "\<forall>i\<in>set [W..<length rs]. take W (drop (i - W) rs) \<noteq> []"
    using W by auto
  from rolling_loop_valid [OF m cl ne, of gen ppf None "[]" "[]" g]
  obtain var' vs g' where
    loop: "rolling_loop gen ppf rs cl W m [W..<length rs] (None, [], [], g) =
             Inr (var', [] @ vs, [] @ map (\<lambda>i. rs ! i) [W..<length rs], g')"
    and all: "list_all2 (\<lambda>i v. window_estimate gen ppf m (take W (drop (i - W) rs)) cl v)
                [W..<length rs] vs"
    by blast
  let ?acts = "map (\<lambda>i. rs ! i) [W..<length rs]"
  have r: "rolling_var_backtest gen ppf rs cl W m g = Inr ((vs, ?acts), g')"
    by (simp add: rolling_var_backtest_def loop)
  have lv: "length vs = length rs - W"
    using list_all2_lengthD [OF all] by simp
  have la: "length ?acts = length rs - W" by simp
  have each: "acts_k = rs ! (W + k) \<and> window_estimate gen ppf m (take W (drop k rs)) cl (vs ! k)"
    if k: "k < length rs - W" and ak: "acts_k = ?acts ! k" for k acts_k
  proof -
    have i: "[W..<length rs] ! k = W + k" using k by simp
    have "window_estimate gen ppf m (take W (drop ([W..<length rs] ! k - W) rs)) cl (vs ! k)"
      using list_all2_nthD [OF all, of k] k by simp
    then have "window_estimate gen ppf m (take W (drop k rs)) cl (vs ! k)"
      unfolding i by simp
    moreover have "?acts ! k = rs ! (W + k)" using k by simp
    ultimately show ?thesis using ak by simp
  qed
  have "\<forall>k<length rs - W.
          ?acts ! k = rs ! (W + k) \<and> window_estimate gen ppf m (take W (drop k rs)) cl (vs ! k)"
    using each by blast
  then show ?thesis using r lv la by blast
qed

lemma window_var_invalid:
  assumes "m \<noteq> ''historical''" and "m \<noteq> ''parametric''" and "m \<noteq> ''monte_carlo''"
  shows "window_var gen ppf m wr cl var g = Inr (var, g)"
  using assms by (simp add: window_var_def)

lemma rolling_body_invalid:
  assumes "m \<noteq> ''historical''" and "m \<noteq> ''parametric''" and "m \<noteq> ''monte_carlo''"
  shows "rolling_body gen ppf rs cl W m i (None, ests, acts, s) = Inl UnboundLocalError"
    and "rolling_body gen ppf rs cl W m i (Some v, ests, acts, s) =
           Inr (Some v, ests @ [v], acts @ [rs ! i], s)"
  by (simp_all add: rolling_body_def window_var_invalid [OF assms] Let_def)

lemma rolling_invalid:
  assumes m: "m \<noteq> ''historical''" "m \<noteq> ''parametric''" "m \<noteq> ''monte_carlo''"
    and W: "W < length rs"
  shows "rolling_var_backtest gen ppf rs cl W m g = Inl UnboundLocalError"
proof -
  have "[W..<length rs] = W # [Suc W..<length rs]" using W by (rule upt_conv_Cons)
  then show ?thesis
    by (simp add: rolling_var_backtest_def rolling_body_invalid(1) [OF m])
qed

lemma rolling_no_iteration:
  assumes "length rs \<le> W"
  shows "rolling_var_backtest gen ppf rs cl W m g = Inr (([], []), g)"
  using assms by (simp add: rolling_var_backtest_def)

lemma rolling_empty_window:
  assumes "rs \<noteq> []" and "0 \<le> cl" and "cl \<le> 1"
  shows "rolling_var_backtest gen ppf rs cl 0 ''historical'' g = Inl IndexError"
proof -
  have "[0..<length rs] = 0 # [Suc 0..<length rs]"
    using assms(1) by (simp add: upt_conv_Cons)
  moreover have "historical_var [] cl = Inl IndexError"
    using assms(2,3) by (simp add: historical_var_def np_percentile_def alpha_of_def)
  ultimately show ?thesis
    by (simp add: rolling_var_backtest_def rolling_body_def window_var_def)
qed

text \<open>
  C2. For a series of length \<open>L\<close>, a window \<open>0 < W < L\<close>, one of the three methods and a
  confidence level in [0, 1] (where the percentile is defined), the rolling backtest
  returns two sequences of length \<open>L - W\<close>; the \<open>k\<close>-th actual return is the series value
  at index \<open>W + k\<close>, and the \<open>k\<close>-th estimate is the method's VaR of the \<open>W\<close> observations
  at indices \<open>k, ..., W + k - 1\<close>, which exclude index \<open>W + k\<close>.
\<close>

theorem rolling_var_backtest_windows:
  assumes "m \<in> {''historical'', ''parametric'', ''monte_carlo''}"
    and "0 < W" and "W < length rs" and "0 \<le> cl" and "cl \<le> 1"
  shows "\<exists>ests acts g'.
           rolling_var_backtest gen ppf rs cl W m g = Inr ((ests, acts), g') \<and>
           length ests = length rs - W \<and> length acts = length rs - W \<and>
           (\<forall>k<length rs - W.
              acts ! k = rs ! (W + k) \<and>
              window_estimate gen ppf m (take W (drop k rs)) cl (ests ! k))"
proof -
  have m: "m = ''historical'' \<or> m = ''parametric'' \<or> m = ''monte_carlo''"
    using assms(1) by blast
  show ?thesis by (rule rolling_valid [OF m assms(2-5)])
qed

theorem rolling_var_backtest_windows_witness:
  "''historical'' \<in> {''historical'', ''parametric'', ''monte_carlo''}
   \<and> (0::nat) < 2 \<and> 2 < length [-0.05, -0.03, -0.01, 0.0, 0.02 :: real]
   \<and> (0::real) \<le> 0.80 \<and> (0.80::real) \<le> 1
   \<and> (\<exists>ests acts g'.
         rolling_var_backtest counter_gen table_norm_ppf [-0.05, -0.03, -0.01, 0.0, 0.02] 0.80 2
           ''historical'' 0 = Inr ((ests, acts), g') \<and>
         length ests = 3 \<and> length acts = 3 \<and> acts ! 0 = - 0.01 \<and>
         window_estimate counter_gen table_norm_ppf ''historical'' [-0.05, -0.03] 0.80 (ests ! 0))"
proof -
  let ?rs = "[-0.05, -0.03, -0.01, 0.0, 0.02 :: real]"
  have h1: "''historical'' \<in> {''historical'', ''parametric'', ''monte_carlo''}" by simp
  have h2: "(0::nat) < 2" by simp
  have h3: "2 < length ?rs" by simp
  have h4: "(0::real) \<le> 0.80" "(0.80::real) \<le> 1" by simp_all
  from rolling_var_backtest_windows [OF h1 h2 h3 h4, of counter_gen table_norm_ppf 0]
  obtain ests acts g' where
    r: "rolling_var_backtest counter_gen table_norm_ppf ?rs 0.80 2 ''historical'' 0 =
          Inr ((ests, acts), g')"
    and le: "length ests = length ?rs - 2" and la: "length acts = length ?rs - 2"
    and each: "\<forall>k<length ?rs - 2.
                 acts ! k = ?rs ! (2 + k) \<and>
                 window_estimate counter_gen table_norm_ppf ''historical''
                   (take 2 (drop k ?rs)) 0.80 (ests ! k)"
    by blast
  have "0 < length ?rs - 2" by simp
  with each have "acts ! 0 = ?rs ! (2 + 0) \<and>
        window_estimate counter_gen table_norm_ppf ''historical''
          (take 2 (drop 0 ?rs)) 0.80 (ests ! 0)"
    by blast
  then have e0: "acts ! 0 = - 0.01"
    and w0: "window_estimate counter_gen table_norm_ppf ''historical'' [-0.05, -0.03] 0.80 (ests ! 0)"
    by simp_all
  have "length ests = 3" "length acts = 3" using le la by simp_all
  then show ?thesis using h1 h2 h3 h4 r e0 w0 by blast
qed

text \<open>
  C10. With a method outside the three names and a window shorter than the series, the
  first iteration binds no \<open>var\<close> and the call stops with UnboundLocalError. The loop body
  itself, entered with \<open>var\<close> unbound, raises; entered with \<open>var\<close> bound to \<open>v\<close>, it
  appends \<open>v\<close> again, whatever the window holds.
\<close>

theorem rolling_var_backtest_unknown_method:
  assumes "m \<notin> {''historical'', ''parametric'', ''monte_carlo''}" and "W < length rs"
  shows "rolling_var_backtest gen ppf rs cl W m g = Inl UnboundLocalError
       \<and> rolling_body gen ppf rs cl W m i (None, ests, acts, s) = Inl UnboundLocalError
       \<and> rolling_body gen ppf rs cl W m i (Some v, ests, acts, s) =
           Inr (Some v, ests @ [v], acts @ [rs ! i], s)"
proof -
  have m: "m \<noteq> ''historical''" "m \<noteq> ''parametric''" "m \<noteq> ''monte_carlo''"
    using assms(1) by blast+
  have "rolling_var_backtest gen ppf rs cl W m g = Inl UnboundLocalError"
    by (rule rolling_invalid [OF m assms(2)])
  moreover have "rolling_body gen ppf rs cl W m i (None, ests, acts, s) = Inl UnboundLocalError"
    by (rule rolling_body_invalid(1) [OF m])
  moreover have "rolling_body gen ppf rs cl W m i (Some v, ests, acts, s) =
                   Inr (Some v, ests @ [v], acts @ [rs ! i], s)"
    by (rule rolling_body_invalid(2) [OF m])
  ultimately show ?thesis by blast
qed

theorem rolling_var_backtest_unknown_method_witness:
  "''ewma'' \<notin> {''historical'', ''parametric'', ''monte_carlo''}
   \<and> 1 < length [0.01, 0.02 :: real]
   \<and> rolling_var_backtest counter_gen table_norm_ppf [0.01, 0.02] 0.95 1 ''ewma'' 0 =
       Inl UnboundLocalError
   \<and> rolling_body counter_gen table_norm_ppf [0.01, 0.02] 0.95 1 ''ewma'' 1
        (Some (Fin 0.03), [Fin 0.03], [0.01], 0) =
       Inr (Some (Fin 0.03), [Fin 0.03, Fin 0.03], [0.01, 0.02], 0)"
proof -
  have h1: "''ewma'' \<notin> {''historical'', ''parametric'', ''monte_carlo''}" by simp
  have h2: "1 < length [0.01, 0.02 :: real]" by simp
  from rolling_var_backtest_unknown_method
    [OF h1 h2, where gen = counter_gen and ppf = table_norm_ppf and cl = "0.95" and g = 0
       and i = 1 and ests = "[Fin 0.03]" and acts = "[0.01]" and s = 0 and v = "Fin 0.03"]
  show ?thesis using h1 h2 by simp
qed

end
